theory Spec2Isabelle
  imports Main "HOL-Library.Sublist" "HOL-Library.List_Lexorder"
begin

section \<open>JavaScript strings and arrays\<close>

text \<open>
  Strings are lists of 8-bit code units. The functions of this section are the methods of
  \<^verbatim>\<open>String.prototype\<close> and \<^verbatim>\<open>Array.prototype\<close> that
  \<^verbatim>\<open>condaEnvService.ts\<close> calls.
\<close>

text \<open>\<^verbatim>\<open>s.indexOf(pat)\<close>: the first index at which \<open>pat\<close> occurs in \<open>s\<close>, or \<open>-1\<close>.\<close>

fun indexOf :: "string \<Rightarrow> string \<Rightarrow> int" where
  "indexOf [] pat = (if pat = [] then 0 else - 1)"
| "indexOf (c # cs) pat =
     (if prefix pat (c # cs) then 0
      else (let i = indexOf cs pat in if i < 0 then - 1 else i + 1))"

text \<open>\<^verbatim>\<open>s.split(sep)\<close> for a separator of one character; the empty string splits into \<open>['''']\<close>.\<close>

fun split_on :: "char \<Rightarrow> string \<Rightarrow> string list" where
  "split_on sep [] = [[]]"
| "split_on sep (c # cs) =
     (if c = sep then [] # split_on sep cs
      else (case split_on sep cs of [] \<Rightarrow> [[c]] | p # ps \<Rightarrow> (c # p) # ps))"

text \<open>\<^verbatim>\<open>parts.join(sep)\<close>.\<close>

fun join_with :: "string \<Rightarrow> string list \<Rightarrow> string" where
  "join_with sep [] = []"
| "join_with sep [x] = x"
| "join_with sep (x # y # ys) = x @ sep @ join_with sep (y # ys)"

text \<open>
  \<^verbatim>\<open>s.trim()\<close> removes white space and line terminators from both ends; among the 8-bit
  code units these are TAB, LF, VT, FF, CR, SPACE and NBSP.
\<close>

definition isWhiteSpace :: "char \<Rightarrow> bool" where
  "isWhiteSpace c = (c \<in> set [CHR 0x09, CHR 0x0A, CHR 0x0B, CHR 0x0C, CHR 0x0D, CHR 0x20, CHR 0xA0])"

definition trim :: "string \<Rightarrow> string" where
  "trim s = rev (dropWhile isWhiteSpace (rev (dropWhile isWhiteSpace s)))"

text \<open>
  \<^verbatim>\<open>s.toUpperCase()\<close> on the ASCII letters. (JavaScript also maps letters outside ASCII;
  none of the 8-bit ones maps to a letter of \<^verbatim>\<open>ANACONDA\<close> or \<^verbatim>\<open>CONTINUUM\<close>, the only
  patterns searched in an upper-cased string here.)
\<close>

definition toUpperChar :: "char \<Rightarrow> char" where
  "toUpperChar c = (let n = (of_char c :: nat) in if 97 \<le> n \<and> n \<le> 122 then char_of (n - 32) else c)"

definition toUpperCase :: "string \<Rightarrow> string" where
  "toUpperCase s = map toUpperChar s"

section \<open>Data model\<close>

text \<open>
  Modelled from the spec: the interface \<^verbatim>\<open>PythonInterpreter\<close> is declared in
  \<^verbatim>\<open>interpreter/contracts.ts\<close>, which this development does not have. The spec gives an
  interpreter record a path, and optionally a display name, a company name and a version;
  these are the fields the service reads and writes. An optional field that is absent
  (\<^verbatim>\<open>undefined\<close>) is \<open>None\<close>.
\<close>

record PythonInterpreter =
  path :: string
  displayName :: "string option"
  companyDisplayName :: "string option"
  version :: "string option"

text \<open>
  Arrays are objects: two references to one array see each other's \<^verbatim>\<open>push\<close>. The heap
  holds the arrays of strings; a reference is an index into it.
\<close>

type_synonym ref = nat
type_synonym heap = "string list list"

definition array_of :: "heap \<Rightarrow> ref \<Rightarrow> string list" where
  "array_of h a = (if a < length h then h ! a else [])"

text \<open>The array literal \<^verbatim>\<open>[]\<close> allocates a new array.\<close>

definition new_array :: "heap \<Rightarrow> ref \<times> heap" where
  "new_array h = (length h, h @ [[]])"

text \<open>\<^verbatim>\<open>a.push(x)\<close> appends in place.\<close>

definition push :: "ref \<Rightarrow> string \<Rightarrow> heap \<Rightarrow> heap" where
  "push a x h = h[a := array_of h a @ [x]]"

text \<open>
  \<^verbatim>\<open>type CondaInfo\<close>: every field optional; \<open>envs\<close> refers to an array on the heap.
\<close>

record CondaInfo =
  envs :: "ref option"
  sys_version :: "string option"
  default_prefix :: "string option"
  conda_version :: "string option"
  python_version :: "string option"
  platform :: "string option"

text \<open>
  What \<^verbatim>\<open>JSON.parse\<close> hands to \<^verbatim>\<open>parseCondaInfo\<close>: \<^verbatim>\<open>null\<close>, or an object of the
  declared parameter type \<^verbatim>\<open>CondaInfo\<close>. Reading a property of \<^verbatim>\<open>null\<close> throws a
  \<^verbatim>\<open>TypeError\<close>; \<^verbatim>\<open>JSON.parse\<close> throws a \<^verbatim>\<open>SyntaxError\<close> on text that is not JSON;
  the registry lookup may reject with an error of its own.
\<close>

datatype js_error = SyntaxError | TypeError | OtherError

datatype js_value = Null | Object CondaInfo

text \<open>A settled promise.\<close>

datatype 'a promise = Resolved 'a | Rejected js_error

text \<open>
  \<^verbatim>\<open>p.then(f)\<close> for a callback \<open>f\<close> that does not throw and returns a plain value, or a
  promise that always resolves (then \<open>f\<close> gives the value it resolves to).
\<close>

fun then_do :: "'a promise \<Rightarrow> ('a \<Rightarrow> 'b) \<Rightarrow> 'b promise" where
  "then_do (Resolved x) f = Resolved (f x)"
| "then_do (Rejected e) f = Rejected e"

text \<open>
  Everything the service takes from outside its file: the three constants it imports from
  \<^verbatim>\<open>./conda\<close> (a module this development does not have, so they are parameters), Node's
  \<^verbatim>\<open>path\<close> module of the platform, \<^verbatim>\<open>fs.pathExists\<close> (which resolves to a boolean and
  never rejects), the
  constructor argument \<^verbatim>\<open>registryLookupForConda\<close> with the promise its
  \<^verbatim>\<open>getInterpreters()\<close> returns, the standard output \<^verbatim>\<open>child_process.execFile\<close> passes
  to its callback, and \<^verbatim>\<open>JSON.parse\<close>, which allocates the arrays of the value it returns.
\<close>

record env =
  AnacondaCompanyName :: string
  AnacondaDisplayName :: string
  CONDA_RELATIVE_PY_PATH :: "string list"
  path_join :: "string list \<Rightarrow> string"
  path_dirname :: "string \<Rightarrow> string"
  path_basename :: "string \<Rightarrow> string"
  pathExists :: "string \<Rightarrow> bool"
  registryLookupForConda :: "PythonInterpreter list promise option"
  execFile :: "string \<Rightarrow> string list \<Rightarrow> string"
  JSON_parse :: "string \<Rightarrow> heap \<Rightarrow> js_error + js_value \<times> heap"

section \<open>Display-name heuristics\<close>

definition getBitnessDisplayName :: "string option \<Rightarrow> string" where
  "getBitnessDisplayName arg =
     (let val = (case arg of None \<Rightarrow> [] | Some v \<Rightarrow> v);
          parsedValue = (if indexOf val ''-'' > 0 then split_on CHR ''-'' val ! 1 else val);
          x64Values = [''64'', ''x86'', ''x86_64'']
      in if list_ex (\<lambda>item. indexOf val item \<ge> 0) x64Values then ''64 bit''
         else (let x86Values = [''32'', ''i686'', ''i386'']
               in if list_ex (\<lambda>item. indexOf val item \<ge> 0) x86Values then ''32 bit''
                  else val))"

definition getDisplayVersion :: "string option \<Rightarrow> string" where
  "getDisplayVersion arg =
     (let val = (case arg of None \<Rightarrow> [] | Some v \<Rightarrow> v)
      in join_with ''.''
           (map snd (filter (\<lambda>(index, _). index < 3) (enumerate 0 (split_on CHR ''.'' val)))))"

definition getDisplayNameFromSysVersion :: "env \<Rightarrow> string option \<Rightarrow> string" where
  "getDisplayNameFromSysVersion w arg =
     (let versionInfo = (case arg of None \<Rightarrow> [] | Some v \<Rightarrow> v)
      in if versionInfo = [] then AnacondaDisplayName w
         else (let versionParts = map trim (split_on CHR ''|'' versionInfo)
               in if length versionParts > 1 \<and> indexOf (versionParts ! 1) ''conda'' \<ge> 0
                  then versionParts ! 1
                  else AnacondaDisplayName w))"

text \<open>The local constant \<^verbatim>\<open>bitnesAndVersion\<close> of \<^verbatim>\<open>getDisplayName\<close>.\<close>

definition bitnesAndVersion :: "CondaInfo \<Rightarrow> string" where
  "bitnesAndVersion info =
     (let pythonVersion = getDisplayVersion (python_version info);
          bitness = getBitnessDisplayName (platform info)
      in join_with '', '' (filter (\<lambda>item. length item > 0) [bitness, pythonVersion]))"

text \<open>
  \<^verbatim>\<open>info.conda_version || ''\<close> is the field, or the empty string when the field is absent
  (or empty).
\<close>

definition getDisplayName :: "env \<Rightarrow> CondaInfo \<Rightarrow> string" where
  "getDisplayName w info =
     (let condaVersion = (case conda_version info of None \<Rightarrow> [] | Some v \<Rightarrow> v);
          pythonVersion = getDisplayVersion (python_version info);
          joined =
            trim (join_with '' ''
              (filter (\<lambda>item. length item > 0)
                 [AnacondaCompanyName w, condaVersion,
                  if length (bitnesAndVersion info) > 0
                  then ''('' @ bitnesAndVersion info @ '')'' else []]))
      in if length condaVersion = 0 \<and> length pythonVersion = 0
            \<and> length (bitnesAndVersion info) = 0
         then (case sys_version info of
                 Some sysVersion \<Rightarrow> getDisplayNameFromSysVersion w (Some sysVersion)
               | None \<Rightarrow> joined)
         else joined)"

section \<open>Locating the conda executable\<close>

definition isCondaEnvironment :: "PythonInterpreter \<Rightarrow> bool" where
  "isCondaEnvironment interpreter =
     (indexOf (toUpperCase (case displayName interpreter of None \<Rightarrow> [] | Some v \<Rightarrow> v))
        ''ANACONDA'' \<ge> 0
      \<or> indexOf (toUpperCase (case companyDisplayName interpreter of None \<Rightarrow> [] | Some v \<Rightarrow> v))
        ''CONTINUUM'' \<ge> 0)"

text \<open>
  Modelled from the spec: the helpers of \<^verbatim>\<open>compareVersion\<close> below. A version is split
  on the dot, and every segment is read as the decimal number its leading digits spell (0
  when it has none); two lists of numbers are compared segment by segment from the left,
  and a list that runs out of segments first is the lower one.
\<close>

definition isDigit :: "char \<Rightarrow> bool" where
  "isDigit c = (48 \<le> (of_char c :: nat) \<and> (of_char c :: nat) \<le> 57)"

definition segmentValue :: "string \<Rightarrow> nat" where
  "segmentValue s = foldl (\<lambda>n c. 10 * n + (of_char c - 48)) 0 (takeWhile isDigit s)"

fun compareSegments :: "nat list \<Rightarrow> nat list \<Rightarrow> int" where
  "compareSegments [] [] = 0"
| "compareSegments [] (y # ys) = - 1"
| "compareSegments (x # xs) [] = 1"
| "compareSegments (x # xs) (y # ys) =
     (if x < y then - 1 else if y < x then 1 else compareSegments xs ys)"

definition versionSegments :: "string \<Rightarrow> nat list" where
  "versionSegments v = map segmentValue (split_on CHR ''.'' v)"

text \<open>
  Modelled from the spec: \<^verbatim>\<open>VersionUtils.compareVersion\<close> lives in
  \<^verbatim>\<open>common/versionUtils.ts\<close>, which this development does not have. The spec calls it
  a dotted-numeric, segment-wise numeric comparison under which \<^verbatim>\<open>3.10.2\<close> is above
  \<^verbatim>\<open>3.9.9\<close>. The result is negative, zero or positive, as a comparison function for
  \<^verbatim>\<open>Array.prototype.sort\<close> has it.
\<close>

definition compareVersion :: "string \<Rightarrow> string \<Rightarrow> int" where
  "compareVersion versionA versionB =
     compareSegments (versionSegments versionA) (versionSegments versionB)"

text \<open>
  \<^verbatim>\<open>xs.sort(compareFn)\<close>: a stable insertion sort; \<open>x\<close> goes before \<open>y\<close> when
  \<open>compareFn x y \<le> 0\<close>.
\<close>

fun insert_sorted :: "('a \<Rightarrow> 'a \<Rightarrow> int) \<Rightarrow> 'a \<Rightarrow> 'a list \<Rightarrow> 'a list" where
  "insert_sorted compareFn x [] = [x]"
| "insert_sorted compareFn x (y # ys) =
     (if compareFn x y \<le> 0 then x # y # ys else y # insert_sorted compareFn x ys)"

definition sort_with :: "('a \<Rightarrow> 'a \<Rightarrow> int) \<Rightarrow> 'a list \<Rightarrow> 'a list" where
  "sort_with compareFn xs = foldr (insert_sorted compareFn) xs []"

text \<open>
  \<^verbatim>\<open>a.version!\<close>: the version of an interpreter that passed the filter of
  \<^verbatim>\<open>getLatestVersion\<close>, which keeps the interpreters with a non-empty version only.
\<close>

definition version_of :: "PythonInterpreter \<Rightarrow> string" where
  "version_of a = (case version a of None \<Rightarrow> [] | Some v \<Rightarrow> v)"

definition getLatestVersion :: "PythonInterpreter list \<Rightarrow> PythonInterpreter option" where
  "getLatestVersion interpreters =
     (let sortedInterpreters =
            sort_with (\<lambda>a b. compareVersion (version_of a) (version_of b))
              (filter (\<lambda>interpreter.
                         case version interpreter of None \<Rightarrow> False | Some v \<Rightarrow> length v > 0)
                 interpreters)
      in if length sortedInterpreters > 0
         then Some (sortedInterpreters ! (length sortedInterpreters - 1))
         else None)"

definition getCondaFile :: "env \<Rightarrow> string promise" where
  "getCondaFile w =
     (case registryLookupForConda w of
        Some getInterpreters_result \<Rightarrow>
          then_do
            (then_do
               (then_do
                  (then_do getInterpreters_result
                     (\<lambda>interpreters. filter isCondaEnvironment interpreters))
                  (\<lambda>condaInterpreters. getLatestVersion condaInterpreters))
               (\<lambda>condaInterpreter.
                  case condaInterpreter of
                    Some c \<Rightarrow> path_join w [path_dirname w (path c), ''conda.exe'']
                  | None \<Rightarrow> ''conda''))
            (\<lambda>condaPath. if pathExists w condaPath then condaPath else ''conda'')
      | None \<Rightarrow> Resolved ''conda'')"

section \<open>Discovery and parsing\<close>

text \<open>
  \<^verbatim>\<open>parseCondaInfo\<close> is an \<^verbatim>\<open>async\<close> function: what its body throws rejects the promise
  it returns. Its first statement calls \<^verbatim>\<open>getDisplayName\<close>, which reads
  \<^verbatim>\<open>info.conda_version\<close> and so throws a \<^verbatim>\<open>TypeError\<close> when \<open>info\<close> is \<^verbatim>\<open>null\<close>.
  \<^verbatim>\<open>Promise.all\<close> keeps the order of its argument.
\<close>

definition parseCondaInfo ::
    "env \<Rightarrow> heap \<Rightarrow> js_value \<Rightarrow> PythonInterpreter list promise \<times> heap" where
  "parseCondaInfo w h arg =
     (case arg of
        Null \<Rightarrow> (Rejected TypeError, h)
      | Object info \<Rightarrow>
          (let baseName = getDisplayName w info;
               (envs_ref, h1) = (case envs info of Some a \<Rightarrow> (a, h) | None \<Rightarrow> new_array h);
               h2 = (case default_prefix info of
                       Some p \<Rightarrow> if length p > 0 then push envs_ref p h1 else h1
                     | None \<Rightarrow> h1);
               interpreters =
                 map (\<lambda>env.
                        \<lparr>path = path_join w (env # CONDA_RELATIVE_PY_PATH w),
                         displayName =
                           Some (if Some env = default_prefix info then baseName
                                 else baseName @ '' ('' @ path_basename w env @ '')''),
                         companyDisplayName = Some (AnacondaCompanyName w),
                         version = None\<rparr>)
                   (array_of h2 envs_ref);
               promises =
                 map (\<lambda>env. if pathExists w (path env) then Some env else None) interpreters
           in (Resolved (map the (filter (\<lambda>interpreter. interpreter \<noteq> None) promises)), h2)))"

text \<open>
  The callback of \<^verbatim>\<open>execFile\<close> resolves the new promise with the promise of
  \<^verbatim>\<open>parseCondaInfo\<close>, so the new promise settles as that one does; the
  \<^verbatim>\<open>try\<close>/\<^verbatim>\<open>catch\<close> around it sees what \<^verbatim>\<open>JSON.parse\<close> throws.
\<close>

definition getSuggestionsFromConda :: "env \<Rightarrow> heap \<Rightarrow> PythonInterpreter list promise \<times> heap" where
  "getSuggestionsFromConda w h =
     (case getCondaFile w of
        Rejected e \<Rightarrow> (Rejected e, h)
      | Resolved condaFile \<Rightarrow>
          (let stdout = execFile w condaFile [''info'', ''--json'']
           in if length stdout = 0 then (Resolved [], h)
              else (case JSON_parse w stdout h of
                      Inl e \<Rightarrow> (Resolved [], h)
                    | Inr (info, h1) \<Rightarrow> parseCondaInfo w h1 info)))"

definition getInterpreters :: "env \<Rightarrow> heap \<Rightarrow> PythonInterpreter list promise \<times> heap" where
  "getInterpreters w h = getSuggestionsFromConda w h"

section \<open>Node's path module on POSIX\<close>

text \<open>
  The service reaches the file system through the parameters of \<open>env\<close>. For the concrete
  runs below, this section gives one instance: \<^verbatim>\<open>path.posix\<close> of Node
  (\<^verbatim>\<open>basename\<close>, \<^verbatim>\<open>dirname\<close>, \<^verbatim>\<open>normalize\<close>, \<^verbatim>\<open>join\<close>).
\<close>

definition posix_basename :: "string \<Rightarrow> string" where
  "posix_basename p =
     rev (takeWhile (\<lambda>c. c \<noteq> CHR ''/'') (dropWhile (\<lambda>c. c = CHR ''/'') (rev p)))"

definition posix_dirname :: "string \<Rightarrow> string" where
  "posix_dirname p =
     (case p of
        [] \<Rightarrow> ''.''
      | c0 # rest \<Rightarrow>
          (let hasRoot = (c0 = CHR ''/'');
               r1 = dropWhile (\<lambda>c. c = CHR ''/'') (rev rest);
               r2 = dropWhile (\<lambda>c. c \<noteq> CHR ''/'') r1
           in case r2 of
                [] \<Rightarrow> (if hasRoot then ''/'' else ''.'')
              | slash # r3 \<Rightarrow> if hasRoot \<and> r3 = [] then ''//'' else c0 # rev r3))"

text \<open>
  \<^verbatim>\<open>normalizeString\<close>: the segments seen so far are kept in reverse; \<^verbatim>\<open>..\<close> removes the
  segment before it, and stays only in a relative path that has nothing left to remove.
\<close>

fun normalize_segments :: "bool \<Rightarrow> string list \<Rightarrow> string list \<Rightarrow> string list" where
  "normalize_segments allowAboveRoot [] res = rev res"
| "normalize_segments allowAboveRoot (s # ss) res =
     (if s = [] \<or> s = ''.'' then normalize_segments allowAboveRoot ss res
      else if s = ''..'' then
        (case res of
           [] \<Rightarrow> normalize_segments allowAboveRoot ss (if allowAboveRoot then [''..''] else [])
         | r # rs \<Rightarrow>
             if r = ''..''
             then normalize_segments allowAboveRoot ss (if allowAboveRoot then ''..'' # res else res)
             else normalize_segments allowAboveRoot ss rs)
      else normalize_segments allowAboveRoot ss (s # res))"

definition posix_normalize :: "string \<Rightarrow> string" where
  "posix_normalize p =
     (if p = [] then ''.''
      else (let isAbsolute = (hd p = CHR ''/'');
                trailingSeparator = (last p = CHR ''/'');
                body = join_with ''/''
                         (normalize_segments (\<not> isAbsolute) (split_on CHR ''/'' p) []);
                body1 = (if body = [] \<and> \<not> isAbsolute then ''.'' else body);
                body2 = (if body1 \<noteq> [] \<and> trailingSeparator then body1 @ ''/'' else body1)
            in if isAbsolute then CHR ''/'' # body2 else body2))"

definition posix_join :: "string list \<Rightarrow> string" where
  "posix_join args =
     (let joined = join_with ''/'' (filter (\<lambda>arg. length arg > 0) args)
      in if joined = [] then ''.'' else posix_normalize joined)"

text \<open>
  A machine for the concrete runs: POSIX paths, a conda root \<^verbatim>\<open>/opt/conda\<close> with one
  environment \<^verbatim>\<open>foo\<close> below it, no registry lookup, and a \<^verbatim>\<open>conda\<close> that prints
  nothing. The three constants of \<^verbatim>\<open>./conda\<close> are given values of the kind their names
  and uses ask for.
\<close>

definition example_env :: env where
  "example_env =
     \<lparr>AnacondaCompanyName = ''Continuum Analytics, Inc.'',
      AnacondaDisplayName = ''Anaconda'',
      CONDA_RELATIVE_PY_PATH = [''bin'', ''python''],
      path_join = posix_join,
      path_dirname = posix_dirname,
      path_basename = posix_basename,
      pathExists = (\<lambda>p. p \<in> set [''/opt/conda/bin/python'', ''/opt/conda/envs/foo/bin/python'',
                                  ''/opt/conda/bin/conda.exe'']),
      registryLookupForConda = None,
      execFile = (\<lambda>file args. []),
      JSON_parse = (\<lambda>text h. Inl SyntaxError)\<rparr>"

text \<open>Two descriptors for the concrete runs: one with no field at all, one with \<^verbatim>\<open>sys.version\<close> only.\<close>

definition absent_info :: CondaInfo where
  "absent_info = \<lparr>envs = None, sys_version = None, default_prefix = None,
     conda_version = None, python_version = None, platform = None\<rparr>"

definition sys_only_info :: CondaInfo where
  "sys_only_info = \<lparr>envs = None,
     sys_version = Some ''3.6.1 |Anaconda 4.4.0 (64-bit)| (default, May 11 2017, 13:25:24)'',
     default_prefix = None, conda_version = None, python_version = None, platform = None\<rparr>"

text \<open>
  Vocabulary for the statements about \<^verbatim>\<open>parseCondaInfo\<close>: the interpreter path it computes
  for an environment root, and the candidate roots, which are the entries of \<^verbatim>\<open>envs\<close>
  followed by a non-empty \<^verbatim>\<open>default_prefix\<close>.
\<close>

abbreviation pythonPath :: "env \<Rightarrow> string \<Rightarrow> string" where
  "pythonPath w root \<equiv> path_join w (root # CONDA_RELATIVE_PY_PATH w)"

abbreviation candidateRoots :: "heap \<Rightarrow> CondaInfo \<Rightarrow> string list" where
  "candidateRoots h info \<equiv>
     (case envs info of Some a \<Rightarrow> array_of h a | None \<Rightarrow> [])
     @ (case default_prefix info of Some p \<Rightarrow> if p = [] then [] else [p] | None \<Rightarrow> [])"

text \<open>
  Descriptors as \<^verbatim>\<open>conda info --json\<close> prints them. The heap holds two \<^verbatim>\<open>envs\<close> arrays:
  at address 0 the environment \<^verbatim>\<open>foo\<close>, which is on the example machine, and \<^verbatim>\<open>bar\<close>,
  which is not; at address 1 \<^verbatim>\<open>foo\<close> and the root itself.
\<close>

definition example_heap :: heap where
  "example_heap = [[''/opt/conda/envs/foo'', ''/opt/conda/envs/bar''],
                   [''/opt/conda/envs/foo'', ''/opt/conda'']]"

definition example_info :: CondaInfo where
  "example_info = \<lparr>envs = Some 0, sys_version = None, default_prefix = Some ''/opt/conda'',
     conda_version = Some ''4.4.0'', python_version = Some ''3.6.1.final.0'',
     platform = Some ''linux-64''\<rparr>"

definition example_info_root_listed :: CondaInfo where
  "example_info_root_listed = example_info\<lparr>envs := Some 1\<rparr>"

text \<open>
  Interpreters as the registry lookup reports them, for the concrete runs: two Anaconda
  installations with versions \<^verbatim>\<open>3.8.0\<close> and \<^verbatim>\<open>3.10.0\<close>, an Anaconda installation with no
  version, and an interpreter that is not from conda.
\<close>

definition conda_3_8 :: PythonInterpreter where
  "conda_3_8 = \<lparr>path = ''/opt/conda38/bin/python'', displayName = Some ''Anaconda 4.3'',
     companyDisplayName = Some ''Continuum Analytics, Inc.'', version = Some ''3.8.0''\<rparr>"

definition conda_3_10 :: PythonInterpreter where
  "conda_3_10 = \<lparr>path = ''/opt/conda/bin/python'', displayName = Some ''Anaconda 4.4'',
     companyDisplayName = None, version = Some ''3.10.0''\<rparr>"

definition conda_unversioned :: PythonInterpreter where
  "conda_unversioned = \<lparr>path = ''/opt/conda0/bin/python'', displayName = Some ''anaconda'',
     companyDisplayName = None, version = None\<rparr>"

definition system_python :: PythonInterpreter where
  "system_python = \<lparr>path = ''/usr/bin/python'', displayName = Some ''Python 3.11'',
     companyDisplayName = Some ''Python Software Foundation'', version = Some ''3.11.0''\<rparr>"

text \<open>
  The example machine with a registry lookup that reports the four interpreters, and a
  machine whose \<^verbatim>\<open>conda\<close> prints the JSON text \<^verbatim>\<open>null\<close>. On the latter \<^verbatim>\<open>null\<close> is the
  only text \<^verbatim>\<open>JSON.parse\<close> is ever given; it parses to the value \<^verbatim>\<open>null\<close>.
\<close>

definition registry_env :: env where
  "registry_env = example_env\<lparr>registryLookupForConda :=
     Some (Resolved [system_python, conda_3_8, conda_unversioned, conda_3_10])\<rparr>"

definition null_env :: env where
  "null_env = example_env\<lparr>execFile := (\<lambda>file args. ''null''),
     JSON_parse := (\<lambda>text h. if text = ''null'' then Inr (Null, h) else Inl SyntaxError)\<rparr>"

text \<open>The example machine with a registry lookup whose \<^verbatim>\<open>getInterpreters()\<close> rejects.\<close>

definition rejecting_env :: env where
  "rejecting_env = example_env\<lparr>registryLookupForConda := Some (Rejected OtherError)\<rparr>"

section \<open>Properties of the display-name heuristics\<close>

lemma indexOf_sublist: "0 \<le> indexOf s pat \<longleftrightarrow> sublist pat s"
  by (induction s) (auto simp: Let_def sublist_Cons_right)

lemma getBitnessDisplayName_Some:
  "getBitnessDisplayName (Some p) =
     (if sublist ''64'' p \<or> sublist ''x86'' p \<or> sublist ''x86_64'' p then ''64 bit''
      else if sublist ''32'' p \<or> sublist ''i686'' p \<or> sublist ''i386'' p then ''32 bit''
      else p)"
  by (simp add: getBitnessDisplayName_def indexOf_sublist)

text \<open>
  C8. For every platform string \<open>p\<close>, \<^verbatim>\<open>getBitnessDisplayName\<close> returns \<^verbatim>\<open>64 bit\<close> when \<open>p\<close>
  contains one of \<^verbatim>\<open>64\<close>, \<^verbatim>\<open>x86\<close>, \<^verbatim>\<open>x86_64\<close>; otherwise \<^verbatim>\<open>32 bit\<close> when it contains
  one of \<^verbatim>\<open>32\<close>, \<^verbatim>\<open>i686\<close>, \<^verbatim>\<open>i386\<close>; otherwise \<open>p\<close> itself, the empty string included.
  So \<^verbatim>\<open>linux-64\<close> gives \<^verbatim>\<open>64 bit\<close>, \<^verbatim>\<open>osx-32\<close> gives \<^verbatim>\<open>32 bit\<close> and \<^verbatim>\<open>noarch\<close> is passed
  through; an absent platform counts as the empty string.
\<close>

theorem getBitnessDisplayName_by_substring:
  "getBitnessDisplayName (Some p) =
     (if sublist ''64'' p \<or> sublist ''x86'' p \<or> sublist ''x86_64'' p then ''64 bit''
      else if sublist ''32'' p \<or> sublist ''i686'' p \<or> sublist ''i386'' p then ''32 bit''
      else p)
   \<and> getBitnessDisplayName (Some ''linux-64'') = ''64 bit''
   \<and> getBitnessDisplayName (Some ''osx-32'') = ''32 bit''
   \<and> getBitnessDisplayName (Some ''noarch'') = ''noarch''
   \<and> getBitnessDisplayName (Some []) = []
   \<and> getBitnessDisplayName None = []"
proof -
  have ex1: "getBitnessDisplayName (Some ''linux-64'') = ''64 bit''"
    by (simp add: getBitnessDisplayName_def)
  have ex2: "getBitnessDisplayName (Some ''osx-32'') = ''32 bit''"
    by (simp add: getBitnessDisplayName_def)
  have ex3: "getBitnessDisplayName (Some ''noarch'') = ''noarch''"
    by (simp add: getBitnessDisplayName_def)
  have ex4: "getBitnessDisplayName (Some []) = []"
    by (simp add: getBitnessDisplayName_def)
  have ex5: "getBitnessDisplayName None = []"
    by (simp add: getBitnessDisplayName_def)
  from getBitnessDisplayName_Some ex1 ex2 ex3 ex4 ex5 show ?thesis by blast
qed

theorem getBitnessDisplayName_by_substring_witness:
  "getBitnessDisplayName (Some ''win-32'') = ''32 bit''"
proof -
  have no64: "\<not> sublist ''64'' ''win-32''" "\<not> sublist ''x86'' ''win-32''"
    "\<not> sublist ''x86_64'' ''win-32''"
    by (simp_all add: sublist_Cons_right flip: indexOf_sublist)
  have has32: "sublist ''32'' ''win-32''"
    by (simp flip: indexOf_sublist)
  from getBitnessDisplayName_by_substring [of "''win-32''"] no64 has32 show ?thesis by simp
qed

lemma trim_Nil: "trim [] = []"
  by (simp add: trim_def)

lemma getDisplayNameFromSysVersion_Some:
  "getDisplayNameFromSysVersion w (Some sv) =
     (if 2 \<le> length (split_on CHR ''|'' sv) \<and> sublist ''conda'' (trim (split_on CHR ''|'' sv ! 1))
      then trim (split_on CHR ''|'' sv ! 1) else AnacondaDisplayName w)"
proof (cases "sv = []")
  case True
  then show ?thesis by (simp add: getDisplayNameFromSysVersion_def)
next
  case False
  have "1 < length (split_on CHR ''|'' sv) \<longleftrightarrow> 2 \<le> length (split_on CHR ''|'' sv)" by arith
  with False show ?thesis
    by (auto simp: getDisplayNameFromSysVersion_def Let_def indexOf_sublist)
qed

lemma joined_company_only:
  "trim (join_with '' '' (filter (\<lambda>item. length item > 0) [c, [], []])) = trim c"
  by (cases c) (simp_all add: trim_Nil)

text \<open>
  C9, as the code has it. Let \<^verbatim>\<open>conda_version\<close>, the truncated \<^verbatim>\<open>pythonVersion\<close> and
  \<^verbatim>\<open>bitnesAndVersion\<close> all be empty. When \<^verbatim>\<open>sys.version\<close> is present,
  \<^verbatim>\<open>getDisplayName\<close> splits it on the bar and trims the segments; it returns the second
  segment when there are at least two and the second contains \<^verbatim>\<open>conda\<close>, and the fixed
  Conda display name otherwise. When \<^verbatim>\<open>sys.version\<close> is absent, the guard
  \<^verbatim>\<open>typeof sysVersion === 'string'\<close> skips the fallback and the result is the vendor
  name \<^verbatim>\<open>AnacondaCompanyName\<close>, trimmed.
\<close>

theorem getDisplayName_sys_version_fallback:
  assumes "conda_version info = None \<or> conda_version info = Some []"
    and "getDisplayVersion (python_version info) = []"
    and "bitnesAndVersion info = []"
  shows "(\<forall>sv. sys_version info = Some sv \<longrightarrow>
            getDisplayName w info =
              (if 2 \<le> length (split_on CHR ''|'' sv)
                  \<and> sublist ''conda'' (trim (split_on CHR ''|'' sv ! 1))
               then trim (split_on CHR ''|'' sv ! 1) else AnacondaDisplayName w))
       \<and> (sys_version info = None \<longrightarrow> getDisplayName w info = trim (AnacondaCompanyName w))"
proof -
  from assms(1) have cv: "(case conda_version info of None \<Rightarrow> [] | Some v \<Rightarrow> v) = []"
    by auto
  show ?thesis
    using assms(2,3) cv joined_company_only [of "AnacondaCompanyName w"]
    by (auto simp: getDisplayName_def Let_def getDisplayNameFromSysVersion_Some
             simp del: join_with.simps filter.simps)
qed

text \<open>
  The claim as the spec words it promises the fixed Conda display name for every descriptor
  with the three parts empty. The descriptor with no field at all is one, and there the
  service answers with the vendor name.
\<close>

theorem getDisplayName_sys_version_fallback_counterexample:
  "conda_version absent_info = None
   \<and> getDisplayVersion (python_version absent_info) = []
   \<and> bitnesAndVersion absent_info = []
   \<and> sys_version absent_info = None
   \<and> getDisplayName example_env absent_info = ''Continuum Analytics, Inc.''
   \<and> AnacondaDisplayName example_env = ''Anaconda''
   \<and> getDisplayName example_env absent_info \<noteq> AnacondaDisplayName example_env"
  by (simp add: absent_info_def example_env_def getDisplayName_def bitnesAndVersion_def
        getDisplayVersion_def getBitnessDisplayName_def trim_def isWhiteSpace_def)

theorem getDisplayName_sys_version_fallback_witness:
  "getDisplayName example_env sys_only_info = ''Anaconda 4.4.0 (64-bit)''
   \<and> getDisplayName example_env absent_info = ''Continuum Analytics, Inc.''"
proof -
  have a1: "conda_version sys_only_info = None \<or> conda_version sys_only_info = Some []"
    and a2: "getDisplayVersion (python_version sys_only_info) = []"
    and a3: "bitnesAndVersion sys_only_info = []"
    by (simp_all add: sys_only_info_def bitnesAndVersion_def getDisplayVersion_def
          getBitnessDisplayName_def)
  have sv: "sys_version sys_only_info
              = Some ''3.6.1 |Anaconda 4.4.0 (64-bit)| (default, May 11 2017, 13:25:24)''"
    by (simp add: sys_only_info_def)
  have parts: "split_on CHR ''|'' ''3.6.1 |Anaconda 4.4.0 (64-bit)| (default, May 11 2017, 13:25:24)''
         = [''3.6.1 '', ''Anaconda 4.4.0 (64-bit)'', '' (default, May 11 2017, 13:25:24)'']"
    by simp
  have sub: "sublist ''conda'' ''Anaconda 4.4.0 (64-bit)''"
    by (simp flip: indexOf_sublist)
  have tr: "trim ''Anaconda 4.4.0 (64-bit)'' = ''Anaconda 4.4.0 (64-bit)''"
    by (simp add: trim_def isWhiteSpace_def)
  have b1: "conda_version absent_info = None \<or> conda_version absent_info = Some []"
    and b2: "getDisplayVersion (python_version absent_info) = []"
    and b3: "bitnesAndVersion absent_info = []"
    and b4: "sys_version absent_info = None"
    by (simp_all add: absent_info_def bitnesAndVersion_def getDisplayVersion_def
          getBitnessDisplayName_def)
  have tc: "trim (AnacondaCompanyName example_env) = ''Continuum Analytics, Inc.''"
    by (simp add: example_env_def trim_def isWhiteSpace_def)
  have w1: "getDisplayName example_env sys_only_info = ''Anaconda 4.4.0 (64-bit)''"
    using getDisplayName_sys_version_fallback [OF a1 a2 a3, of example_env] sv
    by (simp only: parts) (simp add: sub tr)
  have w2: "getDisplayName example_env absent_info = ''Continuum Analytics, Inc.''"
    using getDisplayName_sys_version_fallback [OF b1 b2 b3, of example_env] b4 tc by simp
  from w1 w2 show ?thesis by simp
qed

section \<open>Properties of parsing\<close>

lemma checked_records:
  "map the (filter (\<lambda>i. i \<noteq> None)
      (map (\<lambda>env. if Q (path env) then Some env else None) (map mk es)))
   = map mk (filter (\<lambda>e. Q (path (mk e))) es)"
  by (induction es) simp_all

lemma array_of_push_same: "a < length h \<Longrightarrow> array_of (push a x h) a = array_of h a @ [x]"
  by (simp add: array_of_def push_def)

lemma array_of_new_array_push:
  "array_of (h @ [xs]) (length h) = xs"
  "push (length h) x (h @ [[]]) = h @ [[x]]"
  by (simp_all add: array_of_def push_def)

lemma parseCondaInfo_Object:
  assumes wf: "\<forall>a. envs info = Some a \<longrightarrow> a < length h"
  shows "parseCondaInfo w h (Object info) =
     (Resolved
        (map (\<lambda>env.
                \<lparr>path = pythonPath w env,
                 displayName =
                   Some (if Some env = default_prefix info then getDisplayName w info
                         else getDisplayName w info @ '' ('' @ path_basename w env @ '')''),
                 companyDisplayName = Some (AnacondaCompanyName w),
                 version = None\<rparr>)
           (filter (\<lambda>env. pathExists w (pythonPath w env)) (candidateRoots h info))),
      (case default_prefix info of
         Some p \<Rightarrow>
           if p = [] then (case envs info of Some a \<Rightarrow> h | None \<Rightarrow> h @ [[]])
           else (case envs info of
                   Some a \<Rightarrow> h[a := array_of h a @ [p]] | None \<Rightarrow> h @ [[p]])
       | None \<Rightarrow> (case envs info of Some a \<Rightarrow> h | None \<Rightarrow> h @ [[]])))"
proof (cases "envs info")
  case None
  show ?thesis
  proof (cases "default_prefix info")
    case dn: None
    show ?thesis
      unfolding parseCondaInfo_def Let_def checked_records
      by (simp add: None dn new_array_def array_of_new_array_push)
  next
    case (Some p)
    show ?thesis
      unfolding parseCondaInfo_def Let_def checked_records
      by (simp add: None Some new_array_def array_of_new_array_push)
  qed
next
  case (Some a)
  with wf have a: "a < length h" by simp
  show ?thesis
  proof (cases "default_prefix info")
    case None
    show ?thesis
      unfolding parseCondaInfo_def Let_def checked_records
      by (simp add: Some None)
  next
    case dp: (Some p)
    show ?thesis
      unfolding parseCondaInfo_def Let_def checked_records
      using a by (simp add: Some dp array_of_push_same) (simp add: push_def)
  qed
qed

lemma heap_after_candidates:
  assumes wf: "\<forall>a. envs info = Some a \<longrightarrow> a < length h"
  shows "array_of (snd (parseCondaInfo w h (Object info)))
           (case envs info of Some a \<Rightarrow> a | None \<Rightarrow> length h)
         = candidateRoots h info"
  using wf unfolding parseCondaInfo_Object [OF wf]
  by (auto simp: array_of_def split: option.splits)

lemma map_path_records:
  "map path (map (\<lambda>env. \<lparr>path = f env, displayName = d env, companyDisplayName = c env,
                            version = v env\<rparr>) (filter (\<lambda>env. P (f env)) es))
   = filter P (map f es)"
  by (induction es) simp_all

lemma parseCondaInfo_candidates_paths:
  assumes wf: "\<forall>a. envs info = Some a \<longrightarrow> a < length h"
  shows "\<exists>rs. parseCondaInfo w h (Object info)
            = (Resolved rs,
               (case default_prefix info of
                  Some p \<Rightarrow>
                    if p = [] then (case envs info of Some a \<Rightarrow> h | None \<Rightarrow> h @ [[]])
                    else (case envs info of
                            Some a \<Rightarrow> h[a := array_of h a @ [p]] | None \<Rightarrow> h @ [[p]])
                | None \<Rightarrow> (case envs info of Some a \<Rightarrow> h | None \<Rightarrow> h @ [[]])))
          \<and> map path rs = filter (pathExists w) (map (pythonPath w) (candidateRoots h info))"
proof -
  let ?rs = "map (\<lambda>env.
                \<lparr>path = pythonPath w env,
                 displayName =
                   Some (if Some env = default_prefix info then getDisplayName w info
                         else getDisplayName w info @ '' ('' @ path_basename w env @ '')''),
                 companyDisplayName = Some (AnacondaCompanyName w),
                 version = None\<rparr>)
           (filter (\<lambda>env. pathExists w (pythonPath w env)) (candidateRoots h info))"
  have "map path ?rs = filter (pathExists w) (map (pythonPath w) (candidateRoots h info))"
    by (rule map_path_records)
  with parseCondaInfo_Object [OF wf, of w] show ?thesis by blast
qed

text \<open>
  C2. The candidate list \<^verbatim>\<open>parseCondaInfo\<close> works on (the array its local \<^verbatim>\<open>envs\<close> refers
  to when the pushes are done) holds every entry of the descriptor's \<^verbatim>\<open>envs\<close>, in the
  descriptor's order, followed by \<^verbatim>\<open>default_prefix\<close> when that is present and not empty;
  nothing is removed as a duplicate. The records come back in that order: their paths are
  the candidates' interpreter paths that exist, in the candidates' order, and when all
  exist there is one record per candidate.
\<close>

theorem parseCondaInfo_candidates_in_order:
  assumes wf: "\<forall>a. envs info = Some a \<longrightarrow> a < length h"
  shows "\<exists>rs h'. parseCondaInfo w h (Object info) = (Resolved rs, h')
     \<and> array_of h' (case envs info of Some a \<Rightarrow> a | None \<Rightarrow> length h) = candidateRoots h info
     \<and> map path rs = filter (pathExists w) (map (pythonPath w) (candidateRoots h info))
     \<and> ((\<forall>root \<in> set (candidateRoots h info). pathExists w (pythonPath w root)) \<longrightarrow>
          map path rs = map (pythonPath w) (candidateRoots h info)
          \<and> length rs = length (candidateRoots h info))"
proof -
  obtain rs h' where eq: "parseCondaInfo w h (Object info) = (Resolved rs, h')"
    and rs: "rs = map (\<lambda>env.
                \<lparr>path = pythonPath w env,
                 displayName =
                   Some (if Some env = default_prefix info then getDisplayName w info
                         else getDisplayName w info @ '' ('' @ path_basename w env @ '')''),
                 companyDisplayName = Some (AnacondaCompanyName w),
                 version = None\<rparr>)
           (filter (\<lambda>env. pathExists w (pythonPath w env)) (candidateRoots h info))"
    using parseCondaInfo_Object [OF wf, of w] by blast
  have heap: "array_of h' (case envs info of Some a \<Rightarrow> a | None \<Rightarrow> length h)
                = candidateRoots h info"
    using heap_after_candidates [OF wf, of w] eq by simp
  have paths: "map path rs = filter (pathExists w) (map (pythonPath w) (candidateRoots h info))"
    unfolding rs by (rule map_path_records)
  have all: "map path rs = map (pythonPath w) (candidateRoots h info)
             \<and> length rs = length (candidateRoots h info)"
    if "\<forall>root \<in> set (candidateRoots h info). pathExists w (pythonPath w root)"
  proof -
    from that have "filter (pathExists w) (map (pythonPath w) (candidateRoots h info))
                    = map (pythonPath w) (candidateRoots h info)"
      by (simp add: filter_id_conv)
    with paths have p: "map path rs = map (pythonPath w) (candidateRoots h info)" by simp
    have "length (map path rs) = length (map (pythonPath w) (candidateRoots h info))"
      by (simp only: p)
    then have "length rs = length (candidateRoots h info)"
      by (simp only: length_map)
    with p show ?thesis by simp
  qed
  from eq heap paths all show ?thesis by blast
qed

text \<open>The example machine, evaluated.\<close>

lemma example_paths:
  "pythonPath example_env ''/opt/conda/envs/foo'' = ''/opt/conda/envs/foo/bin/python''"
  "pythonPath example_env ''/opt/conda/envs/bar'' = ''/opt/conda/envs/bar/bin/python''"
  "pythonPath example_env ''/opt/conda'' = ''/opt/conda/bin/python''"
  by (simp_all add: example_env_def posix_join_def posix_normalize_def)

lemma example_exists:
  "pathExists example_env ''/opt/conda/envs/foo/bin/python''"
  "\<not> pathExists example_env ''/opt/conda/envs/bar/bin/python''"
  "pathExists example_env ''/opt/conda/bin/python''"
  by (simp_all add: example_env_def)

lemma example_wellformed:
  "\<forall>a. envs example_info = Some a \<longrightarrow> a < length example_heap"
  "\<forall>a. envs example_info_root_listed = Some a \<longrightarrow> a < length example_heap"
  by (simp_all add: example_info_def example_info_root_listed_def example_heap_def)

lemma example_candidates:
  "candidateRoots example_heap example_info
     = [''/opt/conda/envs/foo'', ''/opt/conda/envs/bar'', ''/opt/conda'']"
  "candidateRoots example_heap example_info_root_listed
     = [''/opt/conda/envs/foo'', ''/opt/conda'', ''/opt/conda'']"
  by (simp_all add: example_info_def example_info_root_listed_def example_heap_def array_of_def)

lemma example_fields:
  "envs example_info = Some 0" "envs example_info_root_listed = Some 1"
  "default_prefix example_info = Some ''/opt/conda''"
  "default_prefix example_info_root_listed = Some ''/opt/conda''"
  by (simp_all add: example_info_def example_info_root_listed_def)

theorem parseCondaInfo_candidates_in_order_witness:
  "\<exists>rs h'. parseCondaInfo example_env example_heap (Object example_info_root_listed)
              = (Resolved rs, h')
     \<and> array_of h' 1 = [''/opt/conda/envs/foo'', ''/opt/conda'', ''/opt/conda'']
     \<and> map path rs = [''/opt/conda/envs/foo/bin/python'', ''/opt/conda/bin/python'',
                       ''/opt/conda/bin/python'']
     \<and> length rs = 3"
proof -
  from parseCondaInfo_candidates_in_order [OF example_wellformed(2), of example_env]
  obtain rs h' where
    eq: "parseCondaInfo example_env example_heap (Object example_info_root_listed)
           = (Resolved rs, h')"
    and heap: "array_of h' (case envs example_info_root_listed of
                  Some a \<Rightarrow> a | None \<Rightarrow> length example_heap)
               = candidateRoots example_heap example_info_root_listed"
    and all: "(\<forall>root \<in> set (candidateRoots example_heap example_info_root_listed).
                 pathExists example_env (pythonPath example_env root)) \<longrightarrow>
              map path rs = map (pythonPath example_env)
                              (candidateRoots example_heap example_info_root_listed)
              \<and> length rs = length (candidateRoots example_heap example_info_root_listed)"
    by blast
  from heap have h1: "array_of h' 1 = [''/opt/conda/envs/foo'', ''/opt/conda'', ''/opt/conda'']"
    by (simp only: example_candidates) (simp add: example_fields)
  from all have "map path rs = [''/opt/conda/envs/foo/bin/python'', ''/opt/conda/bin/python'',
                       ''/opt/conda/bin/python''] \<and> length rs = 3"
    by (simp only: example_candidates) (simp add: example_paths example_exists)
  with eq h1 show ?thesis
    by (intro exI [of _ rs] exI [of _ h']) simp
qed

text \<open>
  C3. Every record \<^verbatim>\<open>parseCondaInfo\<close> returns has a path for which \<^verbatim>\<open>fs.pathExists\<close>
  answered true; a candidate root whose interpreter path (the root joined with
  \<^verbatim>\<open>CONDA_RELATIVE_PY_PATH\<close>) does not exist has no record, whatever the other fields of
  the descriptor are: the records are as many as the candidates whose path exists.
\<close>

theorem parseCondaInfo_only_existing_paths:
  assumes wf: "\<forall>a. envs info = Some a \<longrightarrow> a < length h"
  shows "\<exists>rs h'. parseCondaInfo w h (Object info) = (Resolved rs, h')
     \<and> (\<forall>r \<in> set rs. pathExists w (path r))
     \<and> (\<forall>root \<in> set (candidateRoots h info).
           \<not> pathExists w (pythonPath w root) \<longrightarrow> pythonPath w root \<notin> path ` set rs)
     \<and> length rs
         = length (filter (\<lambda>root. pathExists w (pythonPath w root)) (candidateRoots h info))"
proof -
  obtain rs h' where eq: "parseCondaInfo w h (Object info) = (Resolved rs, h')"
    and rs: "rs = map (\<lambda>env.
                \<lparr>path = pythonPath w env,
                 displayName =
                   Some (if Some env = default_prefix info then getDisplayName w info
                         else getDisplayName w info @ '' ('' @ path_basename w env @ '')''),
                 companyDisplayName = Some (AnacondaCompanyName w),
                 version = None\<rparr>)
           (filter (\<lambda>env. pathExists w (pythonPath w env)) (candidateRoots h info))"
    using parseCondaInfo_Object [OF wf, of w] by blast
  have ex: "\<forall>r \<in> set rs. pathExists w (path r)"
    unfolding rs by auto
  then have gone: "\<forall>root \<in> set (candidateRoots h info).
           \<not> pathExists w (pythonPath w root) \<longrightarrow> pythonPath w root \<notin> path ` set rs"
    by auto
  have len: "length rs
         = length (filter (\<lambda>root. pathExists w (pythonPath w root)) (candidateRoots h info))"
    unfolding rs by (simp only: length_map)
  from eq ex gone len show ?thesis by blast
qed

theorem parseCondaInfo_only_existing_paths_witness:
  "\<exists>rs h'. parseCondaInfo example_env example_heap (Object example_info) = (Resolved rs, h')
     \<and> ''/opt/conda/envs/bar/bin/python'' \<notin> path ` set rs
     \<and> length rs = 2"
proof -
  from parseCondaInfo_only_existing_paths [OF example_wellformed(1), of example_env]
  obtain rs h' where
    eq: "parseCondaInfo example_env example_heap (Object example_info) = (Resolved rs, h')"
    and gone: "\<forall>root \<in> set (candidateRoots example_heap example_info).
           \<not> pathExists example_env (pythonPath example_env root) \<longrightarrow>
           pythonPath example_env root \<notin> path ` set rs"
    and len: "length rs = length (filter (\<lambda>root. pathExists example_env (pythonPath example_env root))
                                    (candidateRoots example_heap example_info))"
    by blast
  from gone have g: "''/opt/conda/envs/bar/bin/python'' \<notin> path ` set rs"
    by (simp only: example_candidates) (simp add: example_paths example_exists)
  from len have l: "length rs = 2"
    by (simp only: example_candidates) (simp add: example_paths example_exists)
  from eq g l show ?thesis
    by (intro exI [of _ rs] exI [of _ h']) simp
qed

text \<open>
  C7. The records \<^verbatim>\<open>parseCondaInfo\<close> returns belong, in order, to the candidate roots whose
  interpreter path exists. The record of a root equal to \<^verbatim>\<open>default_prefix\<close> carries the
  base display name of \<^verbatim>\<open>getDisplayName\<close>; the record of any other root carries the base
  display name, a space, and the basename of the root in parentheses.
\<close>

theorem parseCondaInfo_displayName:
  assumes wf: "\<forall>a. envs info = Some a \<longrightarrow> a < length h"
  shows "\<exists>rs h'. parseCondaInfo w h (Object info) = (Resolved rs, h')
     \<and> (let kept = filter (\<lambda>root. pathExists w (pythonPath w root)) (candidateRoots h info)
        in length rs = length kept
           \<and> (\<forall>i < length kept.
                 path (rs ! i) = pythonPath w (kept ! i)
                 \<and> displayName (rs ! i)
                     = Some (if Some (kept ! i) = default_prefix info then getDisplayName w info
                             else getDisplayName w info
                                  @ '' ('' @ path_basename w (kept ! i) @ '')'')))"
proof -
  define kept where
    "kept = filter (\<lambda>root. pathExists w (pythonPath w root)) (candidateRoots h info)"
  obtain rs h' where eq: "parseCondaInfo w h (Object info) = (Resolved rs, h')"
    and rs: "rs = map (\<lambda>env.
                \<lparr>path = pythonPath w env,
                 displayName =
                   Some (if Some env = default_prefix info then getDisplayName w info
                         else getDisplayName w info @ '' ('' @ path_basename w env @ '')''),
                 companyDisplayName = Some (AnacondaCompanyName w),
                 version = None\<rparr>) kept"
    using parseCondaInfo_Object [OF wf, of w] unfolding kept_def by blast
  have len: "length rs = length kept"
    by (simp add: rs)
  have names: "\<forall>i < length kept.
                 path (rs ! i) = pythonPath w (kept ! i)
                 \<and> displayName (rs ! i)
                     = Some (if Some (kept ! i) = default_prefix info then getDisplayName w info
                             else getDisplayName w info
                                  @ '' ('' @ path_basename w (kept ! i) @ '')'')"
    by (simp add: rs)
  from eq len names show ?thesis
    unfolding Let_def kept_def by blast
qed

lemma example_displayName:
  "getDisplayName example_env example_info = ''Continuum Analytics, Inc. 4.4.0 (64 bit, 3.6.1)''"
  by (simp add: getDisplayName_def bitnesAndVersion_def getDisplayVersion_def
        getBitnessDisplayName_def example_env_def example_info_def trim_def isWhiteSpace_def)

lemma example_basename: "path_basename example_env ''/opt/conda/envs/foo'' = ''foo''"
  by (simp add: example_env_def posix_basename_def)

theorem parseCondaInfo_displayName_witness:
  "\<exists>rs h'. parseCondaInfo example_env example_heap (Object example_info) = (Resolved rs, h')
     \<and> length rs = 2
     \<and> displayName (rs ! 0) = Some ''Continuum Analytics, Inc. 4.4.0 (64 bit, 3.6.1) (foo)''
     \<and> displayName (rs ! 1) = Some ''Continuum Analytics, Inc. 4.4.0 (64 bit, 3.6.1)''"
proof -
  have kept: "filter (\<lambda>root. pathExists example_env (pythonPath example_env root))
                (candidateRoots example_heap example_info)
              = [''/opt/conda/envs/foo'', ''/opt/conda'']"
    by (simp only: example_candidates) (simp add: example_paths example_exists)
  from parseCondaInfo_displayName [OF example_wellformed(1), of example_env]
  obtain rs h' where
    eq: "parseCondaInfo example_env example_heap (Object example_info) = (Resolved rs, h')"
    and len: "length rs = length [''/opt/conda/envs/foo'', ''/opt/conda'']"
    and names: "\<forall>i < length [''/opt/conda/envs/foo'', ''/opt/conda''].
                 displayName (rs ! i)
                   = Some (if Some ([''/opt/conda/envs/foo'', ''/opt/conda''] ! i)
                              = default_prefix example_info
                           then getDisplayName example_env example_info
                           else getDisplayName example_env example_info
                                @ '' ('' @ path_basename example_env
                                            ([''/opt/conda/envs/foo'', ''/opt/conda''] ! i) @ '')'')"
    unfolding Let_def kept by blast
  from len have l: "length rs = 2" by simp
  from names have "displayName (rs ! 0)
      = Some (if Some ([''/opt/conda/envs/foo'', ''/opt/conda''] ! 0) = default_prefix example_info
              then getDisplayName example_env example_info
              else getDisplayName example_env example_info
                   @ '' ('' @ path_basename example_env
                               ([''/opt/conda/envs/foo'', ''/opt/conda''] ! 0) @ '')'')"
    by (rule allE [of _ 0]) simp
  then have n0: "displayName (rs ! 0)
                   = Some ''Continuum Analytics, Inc. 4.4.0 (64 bit, 3.6.1) (foo)''"
    by (simp add: example_fields example_displayName example_basename)
  from names have "displayName (rs ! 1)
      = Some (if Some ([''/opt/conda/envs/foo'', ''/opt/conda''] ! 1) = default_prefix example_info
              then getDisplayName example_env example_info
              else getDisplayName example_env example_info
                   @ '' ('' @ path_basename example_env
                               ([''/opt/conda/envs/foo'', ''/opt/conda''] ! 1) @ '')'')"
    by (rule allE [of _ 1]) simp
  then have n1: "displayName (rs ! 1) = Some ''Continuum Analytics, Inc. 4.4.0 (64 bit, 3.6.1)''"
    by (simp add: example_fields example_displayName)
  from eq l n0 n1 show ?thesis
    by (intro exI [of _ rs] exI [of _ h']) simp
qed

text \<open>
  C10. When the descriptor's \<^verbatim>\<open>envs\<close> is an array and its \<^verbatim>\<open>default_prefix\<close> is not empty,
  \<^verbatim>\<open>parseCondaInfo\<close> changes its argument: the array \<^verbatim>\<open>envs\<close> refers to has
  \<^verbatim>\<open>default_prefix\<close> appended (no other array changes). A second call with the same
  descriptor therefore starts from the longer array, appends the prefix once more, and
  works on candidates that end in the prefix twice.
\<close>

theorem parseCondaInfo_mutates_envs:
  assumes e: "envs info = Some a" and a: "a < length h"
    and d: "default_prefix info = Some p" and p: "p \<noteq> []"
  shows "\<exists>rs1 h1 rs2 h2.
       parseCondaInfo w h (Object info) = (Resolved rs1, h1)
     \<and> parseCondaInfo w h1 (Object info) = (Resolved rs2, h2)
     \<and> array_of h1 a = array_of h a @ [p]
     \<and> array_of h2 a = array_of h a @ [p, p]
     \<and> length h1 = length h
     \<and> (\<forall>b. b \<noteq> a \<longrightarrow> array_of h1 b = array_of h b)
     \<and> map path rs1 = filter (pathExists w) (map (pythonPath w) (array_of h a @ [p]))
     \<and> map path rs2 = filter (pathExists w) (map (pythonPath w) (array_of h a @ [p, p]))"
proof -
  define h1 where "h1 = h[a := array_of h a @ [p]]"
  define h2 where "h2 = h1[a := array_of h1 a @ [p]]"
  have wf: "\<forall>a. envs info = Some a \<longrightarrow> a < length h" using e a by simp
  have len1: "length h1 = length h" by (simp add: h1_def)
  then have wf1: "\<forall>a. envs info = Some a \<longrightarrow> a < length h1" using e a by simp
  have arr1: "array_of h1 a = array_of h a @ [p]"
    using a by (simp add: h1_def array_of_def)
  have arr2: "array_of h2 a = array_of h a @ [p, p]"
    using a len1 arr1 by (simp add: h2_def array_of_def)
  have frame: "\<forall>b. b \<noteq> a \<longrightarrow> array_of h1 b = array_of h b"
    by (simp add: h1_def array_of_def)
  have c1: "candidateRoots h info = array_of h a @ [p]" using e d p by simp
  have c2: "candidateRoots h1 info = array_of h a @ [p, p]" using e d p arr1 by simp
  from parseCondaInfo_candidates_paths [OF wf, of w]
  obtain rs1 where eq1: "parseCondaInfo w h (Object info) = (Resolved rs1, h1)"
    and p1: "map path rs1 = filter (pathExists w) (map (pythonPath w) (candidateRoots h info))"
    using e d p by (auto simp: h1_def)
  from parseCondaInfo_candidates_paths [OF wf1, of w]
  obtain rs2 where eq2: "parseCondaInfo w h1 (Object info) = (Resolved rs2, h2)"
    and p2: "map path rs2 = filter (pathExists w) (map (pythonPath w) (candidateRoots h1 info))"
    using e d p by (auto simp: h2_def)
  from eq1 eq2 arr1 arr2 len1 frame p1 [unfolded c1] p2 [unfolded c2]
  show ?thesis by blast
qed

theorem parseCondaInfo_mutates_envs_witness:
  "\<exists>rs1 h1 rs2 h2.
       parseCondaInfo example_env example_heap (Object example_info) = (Resolved rs1, h1)
     \<and> parseCondaInfo example_env h1 (Object example_info) = (Resolved rs2, h2)
     \<and> array_of h1 0 = [''/opt/conda/envs/foo'', ''/opt/conda/envs/bar'', ''/opt/conda'']
     \<and> array_of h2 0 = [''/opt/conda/envs/foo'', ''/opt/conda/envs/bar'', ''/opt/conda'',
                         ''/opt/conda'']
     \<and> map path rs1 = [''/opt/conda/envs/foo/bin/python'', ''/opt/conda/bin/python'']
     \<and> map path rs2 = [''/opt/conda/envs/foo/bin/python'', ''/opt/conda/bin/python'',
                        ''/opt/conda/bin/python'']"
proof -
  have a: "(0::nat) < length example_heap" by (simp add: example_heap_def)
  have p: "''/opt/conda'' \<noteq> []" by simp
  have arr: "array_of example_heap 0 = [''/opt/conda/envs/foo'', ''/opt/conda/envs/bar'']"
    by (simp add: example_heap_def array_of_def)
  from parseCondaInfo_mutates_envs [OF example_fields(1) a example_fields(3) p, of example_env]
  obtain rs1 h1 rs2 h2 where
    eq1: "parseCondaInfo example_env example_heap (Object example_info) = (Resolved rs1, h1)"
    and eq2: "parseCondaInfo example_env h1 (Object example_info) = (Resolved rs2, h2)"
    and a1: "array_of h1 0 = array_of example_heap 0 @ [''/opt/conda'']"
    and a2: "array_of h2 0 = array_of example_heap 0 @ [''/opt/conda'', ''/opt/conda'']"
    and p1: "map path rs1 = filter (pathExists example_env)
               (map (pythonPath example_env) (array_of example_heap 0 @ [''/opt/conda'']))"
    and p2: "map path rs2 = filter (pathExists example_env)
               (map (pythonPath example_env)
                  (array_of example_heap 0 @ [''/opt/conda'', ''/opt/conda'']))"
    by blast
  from a1 a2 p1 p2 eq1 eq2 show ?thesis
    unfolding arr
    by (intro exI [of _ rs1] exI [of _ h1] exI [of _ rs2] exI [of _ h2])
       (simp add: example_paths example_exists)
qed

section \<open>Properties of the locator\<close>

lemma compareSegments_le: "compareSegments xs ys \<le> 0 \<longleftrightarrow> xs \<le> ys"
  by (induction xs ys rule: compareSegments.induct) auto

lemma compareSegments_ge: "0 \<le> compareSegments xs ys \<longleftrightarrow> ys \<le> xs"
  by (induction xs ys rule: compareSegments.induct) auto

lemma insert_sorted_insort_key:
  "insert_sorted (\<lambda>a b. compareSegments (k a) (k b)) x ys = insort_key k x ys"
  by (induction ys) (simp_all add: compareSegments_le)

lemma sort_with_sort_key:
  "sort_with (\<lambda>a b. compareSegments (k a) (k b)) xs = sort_key k xs"
  by (induction xs) (simp_all add: sort_with_def insert_sorted_insort_key)

lemma sorted_last_greatest:
  "sorted (map k ys) \<Longrightarrow> y \<in> set ys \<Longrightarrow> k y \<le> k (last ys)"
  by (induction ys) auto

text \<open>What \<^verbatim>\<open>getLatestVersion\<close> returns, by the sorted list of the versioned interpreters.\<close>

lemma getLatestVersion_sorted:
  "getLatestVersion interpreters =
     (let kept = filter (\<lambda>i. case version i of None \<Rightarrow> False | Some v \<Rightarrow> v \<noteq> []) interpreters
      in if kept = [] then None
         else Some (last (sort_key (\<lambda>i. versionSegments (version_of i)) kept)))"
proof -
  have cmp: "(\<lambda>a b. compareVersion (version_of a) (version_of b))
             = (\<lambda>a b. compareSegments (versionSegments (version_of a))
                                       (versionSegments (version_of b)))"
    by (simp add: compareVersion_def)
  have nonempty: "sort_key k xs \<noteq> [] \<longleftrightarrow> xs \<noteq> []" for k :: "PythonInterpreter \<Rightarrow> nat list" and xs
    by (metis length_sort list.size(3) length_0_conv)
  have keep: "(\<lambda>i. case version i of None \<Rightarrow> False | Some v \<Rightarrow> length v > 0)
              = (\<lambda>i. case version i of None \<Rightarrow> False | Some v \<Rightarrow> v \<noteq> [])"
    by (rule ext) (simp split: option.splits)
  show ?thesis
    unfolding getLatestVersion_def cmp sort_with_sort_key Let_def keep
    by (simp add: last_conv_nth nonempty)
qed


text \<open>
  C6. \<^verbatim>\<open>getLatestVersion\<close> leaves out every interpreter whose version is absent or empty.
  It returns nothing exactly when no interpreter is left; otherwise the interpreter it
  returns is one of those left, and no interpreter left is above it under
  \<^verbatim>\<open>compareVersion\<close>, the segment-wise numeric comparison of dotted versions. So of
  \<^verbatim>\<open>3.8.0\<close> and \<^verbatim>\<open>3.10.0\<close>, in either order, it returns \<^verbatim>\<open>3.10.0\<close>.
\<close>

theorem getLatestVersion_highest:
  "(getLatestVersion interpreters = None
      \<longleftrightarrow> (\<forall>i \<in> set interpreters. version i = None \<or> version i = Some []))
   \<and> (\<forall>r. getLatestVersion interpreters = Some r \<longrightarrow>
          r \<in> set interpreters
          \<and> (\<exists>v. version r = Some v \<and> v \<noteq> [])
          \<and> (\<forall>c \<in> set interpreters. \<forall>cv. version c = Some cv \<and> cv \<noteq> [] \<longrightarrow>
                compareVersion cv (version_of r) \<le> 0
                \<and> 0 \<le> compareVersion (version_of r) cv))
   \<and> compareVersion ''3.8.0'' ''3.10.0'' < 0
   \<and> getLatestVersion [conda_3_8, conda_3_10] = Some conda_3_10
   \<and> getLatestVersion [conda_3_10, conda_3_8] = Some conda_3_10"
proof -
  define kept where
    "kept = filter (\<lambda>i. case version i of None \<Rightarrow> False | Some v \<Rightarrow> v \<noteq> []) interpreters"
  define k where "k = (\<lambda>i. versionSegments (version_of i))"
  have res: "getLatestVersion interpreters
             = (if kept = [] then None else Some (last (sort_key k kept)))"
    unfolding getLatestVersion_sorted kept_def k_def Let_def by simp
  have kept_set: "set kept = {i \<in> set interpreters. \<exists>v. version i = Some v \<and> v \<noteq> []}"
    unfolding kept_def by (auto split: option.splits)
  have none: "getLatestVersion interpreters = None
                \<longleftrightarrow> (\<forall>i \<in> set interpreters. version i = None \<or> version i = Some [])"
  proof -
    have "kept = [] \<longleftrightarrow> set kept = {}" by simp
    also have "\<dots> \<longleftrightarrow> (\<forall>i \<in> set interpreters. version i = None \<or> version i = Some [])"
      unfolding kept_set
      by (cases "\<forall>i \<in> set interpreters. version i = None \<or> version i = Some []")
         (fastforce+)
    finally show ?thesis using res by simp
  qed
  have some: "r \<in> set interpreters
          \<and> (\<exists>v. version r = Some v \<and> v \<noteq> [])
          \<and> (\<forall>c \<in> set interpreters. \<forall>cv. version c = Some cv \<and> cv \<noteq> [] \<longrightarrow>
                compareVersion cv (version_of r) \<le> 0
                \<and> 0 \<le> compareVersion (version_of r) cv)"
    if "getLatestVersion interpreters = Some r" for r
  proof -
    from that res have ne: "kept \<noteq> []" and r: "r = last (sort_key k kept)"
      by (auto split: if_splits)
    from ne have "sort_key k kept \<noteq> []"
      by (metis length_sort list.size(3) length_0_conv)
    then have "r \<in> set (sort_key k kept)" unfolding r by (rule last_in_set)
    then have rk: "r \<in> set kept" by simp
    have top: "k c \<le> k r" if "c \<in> set kept" for c
    proof -
      from that have "c \<in> set (sort_key k kept)" by simp
      with sorted_last_greatest [of k "sort_key k kept" c] show ?thesis
        unfolding r by simp
    qed
    have "compareVersion cv (version_of r) \<le> 0 \<and> 0 \<le> compareVersion (version_of r) cv"
      if c: "c \<in> set interpreters" and cv: "version c = Some cv \<and> cv \<noteq> []" for c cv
    proof -
      from c cv have "c \<in> set kept" unfolding kept_set by simp
      from top [OF this] cv show ?thesis
        by (simp add: k_def compareVersion_def compareSegments_le compareSegments_ge
              version_of_def)
    qed
    with rk show ?thesis unfolding kept_set by blast
  qed
  have ex0: "compareVersion ''3.8.0'' ''3.10.0'' < 0"
    by (simp add: compareVersion_def versionSegments_def segmentValue_def isDigit_def)
  have ex1: "getLatestVersion [conda_3_8, conda_3_10] = Some conda_3_10"
    by (simp add: getLatestVersion_def sort_with_def conda_3_8_def conda_3_10_def version_of_def
          compareVersion_def versionSegments_def segmentValue_def isDigit_def)
  have ex2: "getLatestVersion [conda_3_10, conda_3_8] = Some conda_3_10"
    by (simp add: getLatestVersion_def sort_with_def conda_3_8_def conda_3_10_def version_of_def
          compareVersion_def versionSegments_def segmentValue_def isDigit_def)
  from none some ex0 ex1 ex2 show ?thesis by blast
qed

theorem getLatestVersion_highest_witness:
  "getLatestVersion [conda_unversioned, conda_3_10, conda_3_8] = Some conda_3_10
   \<and> getLatestVersion [conda_unversioned] = None"
proof -
  have l1: "getLatestVersion [conda_unversioned, conda_3_10, conda_3_8] = Some conda_3_10"
    by (simp add: getLatestVersion_def sort_with_def conda_3_8_def conda_3_10_def version_of_def
          conda_unversioned_def compareVersion_def versionSegments_def segmentValue_def
          isDigit_def)
  have l2: "\<forall>i \<in> set [conda_unversioned]. version i = None \<or> version i = Some []"
    by (simp add: conda_unversioned_def)
  from getLatestVersion_highest [of "[conda_unversioned]"] l2
  have "getLatestVersion [conda_unversioned] = None" by blast
  with l1 show ?thesis by simp
qed

text \<open>\<^verbatim>\<open>getCondaFile\<close> once the registry lookup has resolved.\<close>

lemma getCondaFile_Resolved:
  assumes "registryLookupForConda w = Some (Resolved found)"
  shows "getCondaFile w =
     Resolved (case getLatestVersion (filter isCondaEnvironment found) of
                 None \<Rightarrow> ''conda''
               | Some c \<Rightarrow>
                   if pathExists w (path_join w [path_dirname w (path c), ''conda.exe''])
                   then path_join w [path_dirname w (path c), ''conda.exe'']
                   else ''conda'')"
  using assms by (simp add: getCondaFile_def split: option.splits)

lemma getLatestVersion_Nil: "getLatestVersion [] = None"
  by (simp add: getLatestVersion_def sort_with_def)

text \<open>
  C4, as the code has it. \<^verbatim>\<open>getCondaFile\<close> resolves, and with the bare command name
  \<^verbatim>\<open>conda\<close>, in each of its failure branches: no registry lookup is configured; the
  lookup reports no interpreter from conda (or none with a version); the sibling path
  derived from the latest one does not exist. It has no \<^verbatim>\<open>catch\<close>: when the promise of
  the lookup's \<^verbatim>\<open>getInterpreters()\<close> rejects, \<^verbatim>\<open>getCondaFile\<close> rejects with the same
  error. So \<^verbatim>\<open>getCondaFile\<close> resolves exactly when the lookup is absent or resolves.
\<close>

theorem getCondaFile_falls_back:
  "(registryLookupForConda w = None \<longrightarrow> getCondaFile w = Resolved ''conda'')
   \<and> (\<forall>found. registryLookupForConda w = Some (Resolved found)
          \<and> filter isCondaEnvironment found = [] \<longrightarrow> getCondaFile w = Resolved ''conda'')
   \<and> (\<forall>found. registryLookupForConda w = Some (Resolved found)
          \<and> getLatestVersion (filter isCondaEnvironment found) = None \<longrightarrow>
          getCondaFile w = Resolved ''conda'')
   \<and> (\<forall>found c. registryLookupForConda w = Some (Resolved found)
          \<and> getLatestVersion (filter isCondaEnvironment found) = Some c
          \<and> \<not> pathExists w (path_join w [path_dirname w (path c), ''conda.exe'']) \<longrightarrow>
          getCondaFile w = Resolved ''conda'')
   \<and> (\<forall>e. registryLookupForConda w = Some (Rejected e) \<longrightarrow> getCondaFile w = Rejected e)
   \<and> ((\<exists>file. getCondaFile w = Resolved file)
        \<longleftrightarrow> (registryLookupForConda w = None
             \<or> (\<exists>found. registryLookupForConda w = Some (Resolved found))))"
proof -
  have none: "registryLookupForConda w = None \<longrightarrow> getCondaFile w = Resolved ''conda''"
    by (simp add: getCondaFile_def)
  have no_conda: "getCondaFile w = Resolved ''conda''"
    if "registryLookupForConda w = Some (Resolved found) \<and> filter isCondaEnvironment found = []"
    for found
    using that by (simp add: getCondaFile_Resolved getLatestVersion_Nil)
  have no_version: "getCondaFile w = Resolved ''conda''"
    if "registryLookupForConda w = Some (Resolved found)
        \<and> getLatestVersion (filter isCondaEnvironment found) = None"
    for found
    using that by (simp add: getCondaFile_Resolved)
  have missing: "getCondaFile w = Resolved ''conda''"
    if "registryLookupForConda w = Some (Resolved found)
        \<and> getLatestVersion (filter isCondaEnvironment found) = Some c
        \<and> \<not> pathExists w (path_join w [path_dirname w (path c), ''conda.exe''])"
    for found c
    using that by (simp add: getCondaFile_Resolved)
  have rejects: "getCondaFile w = Rejected e"
    if "registryLookupForConda w = Some (Rejected e)" for e
    using that by (simp add: getCondaFile_def)
  have resolves: "(\<exists>file. getCondaFile w = Resolved file)
        \<longleftrightarrow> (registryLookupForConda w = None
             \<or> (\<exists>found. registryLookupForConda w = Some (Resolved found)))"
  proof (cases "registryLookupForConda w")
    case None
    with none show ?thesis by simp
  next
    case (Some answer)
    show ?thesis
    proof (cases answer)
      case (Resolved found)
      with Some show ?thesis by (simp add: getCondaFile_Resolved)
    next
      case (Rejected e)
      with Some rejects [of e] show ?thesis by simp
    qed
  qed
  from none no_conda no_version missing rejects resolves show ?thesis by blast
qed

text \<open>
  The claim as the spec words it says \<^verbatim>\<open>getCondaFile\<close> never raises. With a registry lookup
  that rejects, it rejects.
\<close>

theorem getCondaFile_falls_back_counterexample:
  "registryLookupForConda rejecting_env = Some (Rejected OtherError)
   \<and> getCondaFile rejecting_env = Rejected OtherError
   \<and> getCondaFile rejecting_env \<noteq> Resolved ''conda''"
  by (simp add: rejecting_env_def getCondaFile_def)

lemma example_latest:
  "getLatestVersion (filter isCondaEnvironment
      [system_python, conda_3_8, conda_unversioned, conda_3_10]) = Some conda_3_10"
  "getLatestVersion (filter isCondaEnvironment [system_python, conda_3_8]) = Some conda_3_8"
  "filter isCondaEnvironment [system_python] = []"
  by code_simp+

lemma example_sibling:
  "path_join example_env [path_dirname example_env (path conda_3_10), ''conda.exe'']
     = ''/opt/conda/bin/conda.exe''"
  "path_join example_env [path_dirname example_env (path conda_3_8), ''conda.exe'']
     = ''/opt/conda38/bin/conda.exe''"
  by (simp_all add: example_env_def conda_3_10_def conda_3_8_def posix_dirname_def
        posix_join_def posix_normalize_def)

theorem getCondaFile_falls_back_witness:
  "getCondaFile example_env = Resolved ''conda''
   \<and> getCondaFile (example_env\<lparr>registryLookupForConda := Some (Resolved [system_python])\<rparr>)
       = Resolved ''conda''
   \<and> getCondaFile (example_env\<lparr>registryLookupForConda :=
                                  Some (Resolved [system_python, conda_3_8])\<rparr>)
       = Resolved ''conda''
   \<and> getCondaFile (example_env\<lparr>registryLookupForConda := Some (Rejected TypeError)\<rparr>)
       = Rejected TypeError"
proof -
  let ?w3 = "example_env\<lparr>registryLookupForConda := Some (Rejected TypeError)\<rparr>"
  have d: "registryLookupForConda ?w3 = Some (Rejected TypeError)"
    by simp
  from getCondaFile_falls_back [of ?w3] d
  have r3: "getCondaFile ?w3 = Rejected TypeError" by blast
  let ?w1 = "example_env\<lparr>registryLookupForConda := Some (Resolved [system_python])\<rparr>"
  let ?w2 = "example_env\<lparr>registryLookupForConda := Some (Resolved [system_python, conda_3_8])\<rparr>"
  have a: "registryLookupForConda example_env = None"
    by (simp add: example_env_def)
  have b1: "registryLookupForConda ?w1 = Some (Resolved [system_python])"
    by simp
  from b1 example_latest(3)
  have b: "registryLookupForConda ?w1 = Some (Resolved [system_python])
           \<and> filter isCondaEnvironment [system_python] = []"
    by (rule conjI)
  have c1: "registryLookupForConda ?w2 = Some (Resolved [system_python, conda_3_8])"
    by simp
  have c3: "\<not> pathExists ?w2 (path_join ?w2 [path_dirname ?w2 (path conda_3_8), ''conda.exe''])"
    using example_sibling(2) by (simp add: example_env_def)
  from c1 example_latest(2) c3
  have c: "registryLookupForConda ?w2 = Some (Resolved [system_python, conda_3_8])
           \<and> getLatestVersion (filter isCondaEnvironment [system_python, conda_3_8])
               = Some conda_3_8
           \<and> \<not> pathExists ?w2 (path_join ?w2 [path_dirname ?w2 (path conda_3_8), ''conda.exe''])"
    by (intro conjI)
  from getCondaFile_falls_back [of example_env] a
  have r0: "getCondaFile example_env = Resolved ''conda''" by blast
  from getCondaFile_falls_back [of ?w1] b
  have r1: "getCondaFile ?w1 = Resolved ''conda''" by blast
  from getCondaFile_falls_back [of ?w2] c
  have r2: "getCondaFile ?w2 = Resolved ''conda''" by blast
  from r0 r1 r2 r3 show ?thesis by simp
qed

text \<open>
  C5. When the registry lookup reports interpreters from conda and \<open>c\<close> is the one
  \<^verbatim>\<open>getLatestVersion\<close> picks among them, \<^verbatim>\<open>getCondaFile\<close> derives the sibling of \<open>c\<close>'s
  executable named \<^verbatim>\<open>conda.exe\<close> (the directory of \<open>c\<close>'s path joined with that name). It
  returns the derived path when the path exists, and the bare name \<^verbatim>\<open>conda\<close> when it does
  not; the derived path never being the bare name, it is returned exactly when it exists.
\<close>

theorem getCondaFile_sibling_of_latest:
  assumes "registryLookupForConda w = Some (Resolved found)"
    and "getLatestVersion (filter isCondaEnvironment found) = Some c"
  shows "(pathExists w (path_join w [path_dirname w (path c), ''conda.exe'']) \<longrightarrow>
            getCondaFile w = Resolved (path_join w [path_dirname w (path c), ''conda.exe'']))
       \<and> (\<not> pathExists w (path_join w [path_dirname w (path c), ''conda.exe'']) \<longrightarrow>
            getCondaFile w = Resolved ''conda'')
       \<and> (path_join w [path_dirname w (path c), ''conda.exe''] \<noteq> ''conda'' \<longrightarrow>
            (getCondaFile w = Resolved (path_join w [path_dirname w (path c), ''conda.exe''])
             \<longleftrightarrow> pathExists w (path_join w [path_dirname w (path c), ''conda.exe''])))"
  using assms by (auto simp: getCondaFile_Resolved)

theorem getCondaFile_sibling_of_latest_witness:
  "getCondaFile registry_env = Resolved ''/opt/conda/bin/conda.exe''"
proof -
  have r: "registryLookupForConda registry_env
             = Some (Resolved [system_python, conda_3_8, conda_unversioned, conda_3_10])"
    by (simp add: registry_env_def)
  have s: "path_join registry_env [path_dirname registry_env (path conda_3_10), ''conda.exe'']
             = ''/opt/conda/bin/conda.exe''"
    using example_sibling(1) by (simp add: registry_env_def)
  have e: "pathExists registry_env ''/opt/conda/bin/conda.exe''"
    by (simp add: registry_env_def example_env_def)
  from getCondaFile_sibling_of_latest [OF r example_latest(1)] s e show ?thesis by simp
qed

section \<open>Properties of discovery\<close>

text \<open>Where \<^verbatim>\<open>getInterpreters\<close> does resolve.\<close>

lemma getInterpreters_empty_stdout:
  assumes "getCondaFile w = Resolved file" and "execFile w file [''info'', ''--json''] = []"
  shows "getInterpreters w h = (Resolved [], h)"
  using assms by (simp add: getInterpreters_def getSuggestionsFromConda_def)

lemma getInterpreters_not_json:
  assumes "getCondaFile w = Resolved file"
    and "JSON_parse w (execFile w file [''info'', ''--json'']) h = Inl e"
  shows "getInterpreters w h = (Resolved [], h)"
  using assms by (simp add: getInterpreters_def getSuggestionsFromConda_def Let_def)

lemma getInterpreters_descriptor:
  assumes "getCondaFile w = Resolved file"
    and "execFile w file [''info'', ''--json''] \<noteq> []"
    and "JSON_parse w (execFile w file [''info'', ''--json'']) h = Inr (Object info, h1)"
    and "\<forall>a. envs info = Some a \<longrightarrow> a < length h1"
  shows "\<exists>rs h2. getInterpreters w h = (Resolved rs, h2)"
  using assms parseCondaInfo_Object [OF assms(4), of w]
  by (simp add: getInterpreters_def getSuggestionsFromConda_def Let_def)

text \<open>
  C1 fails on the code. \<^verbatim>\<open>null\<close> is JSON, so \<^verbatim>\<open>JSON.parse\<close> returns without throwing;
  \<^verbatim>\<open>parseCondaInfo(null)\<close> then fails reading \<^verbatim>\<open>info.conda_version\<close>, and being
  \<^verbatim>\<open>async\<close> it reports the \<^verbatim>\<open>TypeError\<close> by rejecting its promise, out of reach of the
  \<^verbatim>\<open>catch\<close>. When \<^verbatim>\<open>conda\<close> prints \<^verbatim>\<open>null\<close>, \<^verbatim>\<open>getInterpreters\<close> rejects.
\<close>

theorem getInterpreters_rejects_null:
  assumes "getCondaFile w = Resolved file"
    and "execFile w file [''info'', ''--json''] = ''null''"
    and "JSON_parse w ''null'' h = Inr (Null, h1)"
  shows "getInterpreters w h = (Rejected TypeError, h1)"
  using assms
  by (simp add: getInterpreters_def getSuggestionsFromConda_def parseCondaInfo_def)

theorem getInterpreters_rejects_null_witness:
  "getInterpreters null_env [] = (Rejected TypeError, [])"
proof -
  have f: "getCondaFile null_env = Resolved ''conda''"
    by (simp add: null_env_def example_env_def getCondaFile_def)
  have x: "execFile null_env ''conda'' [''info'', ''--json''] = ''null''"
    by (simp add: null_env_def)
  have j: "JSON_parse null_env ''null'' [] = Inr (Null, [])"
    by (simp add: null_env_def)
  from getInterpreters_rejects_null [OF f x j] show ?thesis .
qed

end
